theory Spec2Isabelle
  imports Main
begin


section \<open>The HTTP server of core/server/http/http_server.ts\<close>

text \<open>
  A shallow embedding of the class \<open>HttpServer\<close>. The private fields of the class are
  the fields of a record, every method is a function that takes the instance and
  returns the outcome of the call together with the instance after the call, and a
  thrown \<open>Error\<close> (or a rejected promise, for the \<open>async\<close> methods) is the left
  summand of the outcome. Calls of \<open>this.log.debug\<close> go to the injected logger, touch
  no field of the class and are left out.
\<close>

subsection \<open>JavaScript strings\<close>

text \<open>
  The string methods the class calls: \<open>s.startsWith(p)\<close>, \<open>s.endsWith(p)\<close>,
  \<open>s.slice(n)\<close> for a start index \<open>n \<ge> 0\<close>, and \<open>s.replace(pat, rep)\<close> for a
  string pattern, which replaces the first occurrence of \<open>pat\<close> only (the class calls it
  with the replacement \<open>''\<close>, which holds no replacement pattern).
\<close>

definition startsWith :: "string \<Rightarrow> string \<Rightarrow> bool" where
  "startsWith s p = (take (length p) s = p)"

definition endsWith :: "string \<Rightarrow> string \<Rightarrow> bool" where
  "endsWith s p = (length p \<le> length s \<and> drop (length s - length p) s = p)"

definition slice :: "string \<Rightarrow> nat \<Rightarrow> string" where
  "slice s n = drop n s"

fun replace :: "string \<Rightarrow> string \<Rightarrow> string \<Rightarrow> string" where
  "replace [] pat rep = (if pat = [] then rep else [])"
| "replace (c # cs) pat rep =
     (if startsWith (c # cs) pat then rep @ drop (length pat) (c # cs)
      else c # replace cs pat rep)"

subsection \<open>Route paths\<close>

text \<open>
  \<^verbatim>\<open>
  private getRouteFullPath(routerPath: string, routePath: string) {
    const routePathStartIndex = routerPath.endsWith('/') && routePath.startsWith('/') ? 1 : 0;
    return `${routerPath}${routePath.slice(routePathStartIndex)}`;
  }
  \<close>
\<close>

definition getRouteFullPath :: "string \<Rightarrow> string \<Rightarrow> string" where
  "getRouteFullPath routerPath routePath =
     (let routePathStartIndex =
            (if endsWith routerPath ''/'' \<and> startsWith routePath ''/'' then 1 else 0)
      in routerPath @ slice routePath routePathStartIndex)"

subsection \<open>Requests, handlers and routers\<close>

text \<open>
  The request identity is the \<open>IncomingMessage\<close> object of the transport, a key of two
  \<open>WeakMap\<close>s: an object reference, here a number. Methods that take
  \<open>KibanaRequest | Request\<close> take a sum; \<open>request instanceof KibanaRequest\<close> is the
  case distinction on it.
\<close>

type_synonym IncomingMessage = nat

datatype KibanaRequest =
  KibanaRequest (unstable_getIncomingMessage: IncomingMessage) (url_href: string)

datatype HapiRequest = HapiRequest (raw_req: IncomingMessage)

type_synonym AnyRequest = "KibanaRequest + HapiRequest"

text \<open>
  A thrown \<open>new Error(message)\<close>, or the \<open>TypeError\<close> of reading a property of
  \<open>undefined\<close>.
\<close>

datatype error = Error string | TypeError

text \<open>A value of TypeScript's type \<open>unknown\<close>: the session state of a request.\<close>

datatype js_value = Undefined | Value string

text \<open>
  What a lifecycle handler answers through its toolkit: \<open>toolkit.next()\<close>,
  \<open>toolkit.rejected(error, {statusCode})\<close> or \<open>toolkit.redirected(url, {forward})\<close>.
\<close>

datatype toolkit_result = Next | Rejected error nat | Redirected string bool

type_synonym OnPreAuthHandler = "KibanaRequest \<Rightarrow> toolkit_result"
type_synonym OnPostAuthHandler = "KibanaRequest \<Rightarrow> toolkit_result"
type_synonym OnPreResponseHandler = "KibanaRequest \<Rightarrow> toolkit_result"

text \<open>
  An authentication handler and a route handler are opaque references. The cookie
  options are passed on to the session storage factory and are not inspected here.
\<close>

type_synonym AuthenticationHandler = nat
type_synonym RequestHandler = nat

record SessionStorageCookieOptions =
  cookie_name :: string
  encryptionKey :: string
  isSecure :: bool

record Route =
  route_handler :: RequestHandler
  route_method :: string
  route_path :: string
  authRequired :: bool

text \<open>
  A router is an object: \<open>router_ref\<close> is its reference, so that two routers with the
  same path and routes are still two members of a \<open>Set\<close>. \<open>getRoutes\<close> is what
  \<open>router.getRoutes()\<close> returns. The class changes no router; a router is taken as the
  value that the class reads from it.
\<close>

record Router =
  router_ref :: nat
  router_path :: string
  getRoutes :: "Route list"

subsection \<open>The hapi server\<close>

text \<open>
  The part of the hapi \<open>Server\<close> object that the class drives: whether the listener is
  listening, the routes given to \<open>server.route\<close>, the extensions given to
  \<open>server.ext\<close> per extension point, and what \<open>server.auth.scheme\<close>,
  \<open>server.auth.strategy\<close> and \<open>server.auth.default\<close> were called with. The route option
  \<open>auth\<close> is either \<open>undefined\<close> (the server's default strategy applies) or \<open>false\<close>
  (no authentication).
\<close>

record HttpConfig =
  basePath :: "string option"
  rewriteBasePath :: bool
  host :: string
  port :: nat

record ServerOptions =
  options_host :: string
  options_port :: nat

datatype route_auth = AuthDefault | AuthDisabled

record ServerRoute =
  sr_handler :: RequestHandler
  sr_method :: string
  sr_path :: string
  sr_auth :: route_auth

record HapiServer =
  settings :: ServerOptions
  listening :: bool
  route_table :: "ServerRoute list"
  ext_onRequest :: "OnPreAuthHandler list"
  ext_onPostAuth :: "OnPostAuthHandler list"
  ext_onPreResponse :: "OnPreResponseHandler list"
  auth_schemes :: "(string \<times> AuthenticationHandler) list"
  auth_strategies :: "(string \<times> string) list"
  auth_default :: "string option"

text \<open>
  Modelled from the spec: \<open>getServerOptions\<close> of http_tools is not among the sources. The
  listener's options are derived from the configuration (host and port; the TLS and
  compression options play no part here).
\<close>

definition getServerOptions :: "HttpConfig \<Rightarrow> ServerOptions" where
  "getServerOptions config = \<lparr>options_host = host config, options_port = port config\<rparr>"

text \<open>
  Modelled from the spec: \<open>createServer\<close> of http_tools is not among the sources. It builds
  the underlying listener from the options: a new server that does not listen yet and has
  no route, no extension and no authentication scheme.
\<close>

definition createServer :: "ServerOptions \<Rightarrow> HapiServer" where
  "createServer serverOptions =
     \<lparr>settings = serverOptions, listening = False, route_table = [],
      ext_onRequest = [], ext_onPostAuth = [], ext_onPreResponse = [],
      auth_schemes = [], auth_strategies = [], auth_default = None\<rparr>"

text \<open>
  \<open>server.route(...)\<close> is a call into hapi, which checks the route it is given, by its
  own rules and against the routes that the server has, and throws when it refuses it
  (a path without its leading slash, a route in conflict with one of the table). The
  verdict of hapi on a route for a server is \<open>check\<close>: \<open>None\<close> when hapi takes the
  route, which is then added to the table, or the error that it throws.
\<close>

type_synonym route_check = "HapiServer \<Rightarrow> ServerRoute \<Rightarrow> error option"

definition server_route :: "route_check \<Rightarrow> ServerRoute \<Rightarrow> HapiServer \<Rightarrow> error + HapiServer" where
  "server_route check r s =
     (case check s r of
        Some e \<Rightarrow> Inl e
      | None \<Rightarrow> Inr (s\<lparr>route_table := route_table s @ [r]\<rparr>))"

text \<open>
  A request for a route whose \<open>auth\<close> option is \<open>undefined\<close> is authenticated by the
  default strategy of the server, when the server has one (\<open>server.auth.default\<close>: the
  strategy is assigned to all routes that do not contain an auth config); a request for a
  route whose option is \<open>false\<close> is not authenticated.
\<close>

definition authEnforced :: "HapiServer \<Rightarrow> ServerRoute \<Rightarrow> bool" where
  "authEnforced s r = (sr_auth r = AuthDefault \<and> auth_default s \<noteq> None)"

subsection \<open>Urls\<close>

text \<open>
  The url of a request is its request target: a path, then the query and the fragment.
  Of the parts of a url, \<open>pathname\<close> is the part before the first \<open>?\<close> or \<open>#\<close>
  and \<open>search\<close> is the rest. A part that is empty is absent, as every part of the
  empty object \<open>{}\<close> is.
\<close>

record URLMeaningfulParts =
  pathname :: "string option"
  search :: "string option"

definition empty_parts :: URLMeaningfulParts where
  "empty_parts = \<lparr>pathname = None, search = None\<rparr>"

definition is_path_char :: "char \<Rightarrow> bool" where
  "is_path_char c = (c \<noteq> CHR ''?'' \<and> c \<noteq> CHR ''#'')"

text \<open>
  Modelled from the spec: the url parser that \<open>modifyUrl\<close> uses is not among the
  sources. It splits a request target into its parts.
\<close>

definition parseUrl :: "string \<Rightarrow> URLMeaningfulParts" where
  "parseUrl url =
     (let p = takeWhile is_path_char url; q = dropWhile is_path_char url
      in \<lparr>pathname = (if p = [] then None else Some p),
          search = (if q = [] then None else Some q)\<rparr>)"

text \<open>
  Modelled from the spec: the url formatter that \<open>modifyUrl\<close> uses is not among the
  sources. It puts the parts that are present back together; the url of \<open>{}\<close> is the
  empty string.
\<close>

definition formatUrl :: "URLMeaningfulParts \<Rightarrow> string" where
  "formatUrl parts =
     (case pathname parts of None \<Rightarrow> [] | Some p \<Rightarrow> p)
     @ (case search parts of None \<Rightarrow> [] | Some q \<Rightarrow> q)"

text \<open>
  Modelled from the spec: \<open>modifyUrl\<close> of core/utils is not among the sources. It parses a
  url into its parts, hands them to a modifier, which changes them in place or returns
  new parts, and formats the parts that result back into a url. The modifier is a function
  from the parts it is given to the parts that are formatted.
\<close>

definition modifyUrl :: "string \<Rightarrow> (URLMeaningfulParts \<Rightarrow> URLMeaningfulParts) \<Rightarrow> string" where
  "modifyUrl url urlModifier = formatUrl (urlModifier (parseUrl url))"

subsection \<open>The class\<close>

text \<open>
  \<^verbatim>\<open>
  private server?: Server;
  private registeredRouters = new Set<Router>();
  private authRegistered = false;
  private basePathCache = new WeakMap<IncomingMessage, string>();
  private authState = new WeakMap<IncomingMessage, unknown>();
  \<close>
  A JavaScript \<open>Set\<close> iterates in insertion order and \<open>add\<close> of a member changes
  nothing: a list without duplicates.
\<close>

record HttpServer =
  server :: "HapiServer option"
  registeredRouters :: "Router list"
  authRegistered :: bool
  basePathCache :: "IncomingMessage \<rightharpoonup> string"
  authState :: "IncomingMessage \<rightharpoonup> js_value"

definition new_HttpServer :: HttpServer where
  "new_HttpServer =
     \<lparr>server = None, registeredRouters = [], authRegistered = False,
      basePathCache = Map.empty, authState = Map.empty\<rparr>"

definition Set_add :: "'a \<Rightarrow> 'a list \<Rightarrow> 'a list" where
  "Set_add x xs = (if x \<in> set xs then xs else xs @ [x])"

type_synonym 'a result = "(error + 'a) \<times> HttpServer"

definition incomingMessageOf :: "AnyRequest \<Rightarrow> IncomingMessage" where
  "incomingMessageOf request =
     (case request of Inl k \<Rightarrow> unstable_getIncomingMessage k | Inr r \<Rightarrow> raw_req r)"

definition isListening :: "HttpServer \<Rightarrow> bool" where
  "isListening this = (case server this of None \<Rightarrow> False | Some s \<Rightarrow> listening s)"

definition registerRouter :: "Router \<Rightarrow> HttpServer \<Rightarrow> unit result" where
  "registerRouter router this =
     (if isListening this
      then (Inl (Error ''Routers can be registered only when HTTP server is stopped.''), this)
      else (Inr (), this\<lparr>registeredRouters := Set_add router (registeredRouters this)\<rparr>))"

definition getBasePathFor :: "HttpConfig \<Rightarrow> AnyRequest \<Rightarrow> HttpServer \<Rightarrow> string" where
  "getBasePathFor config request this =
     (let incomingMessage = incomingMessageOf request;
          requestScopePath = (case basePathCache this incomingMessage of
                                None \<Rightarrow> [] | Some p \<Rightarrow> p);
          serverBasePath = (case basePath config of None \<Rightarrow> [] | Some p \<Rightarrow> p)
      in serverBasePath @ requestScopePath)"

definition setBasePathFor :: "AnyRequest \<Rightarrow> string \<Rightarrow> HttpServer \<Rightarrow> unit result" where
  "setBasePathFor request basePath' this =
     (let incomingMessage = incomingMessageOf request
      in if basePathCache this incomingMessage \<noteq> None
         then (Inl (Error
           ''Request basePath was previously set. Setting multiple times is not supported.''),
           this)
         else (Inr (),
           this\<lparr>basePathCache := (basePathCache this)(incomingMessage \<mapsto> basePath')\<rparr>))"

definition registerOnPostAuth :: "OnPostAuthHandler \<Rightarrow> HttpServer \<Rightarrow> unit result" where
  "registerOnPostAuth fn this =
     (case server this of
        None \<Rightarrow> (Inl (Error ''Server is not created yet''), this)
      | Some s \<Rightarrow>
          (Inr (), this\<lparr>server := Some (s\<lparr>ext_onPostAuth := ext_onPostAuth s @ [fn]\<rparr>)\<rparr>))"

definition registerOnPreAuth :: "OnPreAuthHandler \<Rightarrow> HttpServer \<Rightarrow> unit result" where
  "registerOnPreAuth fn this =
     (case server this of
        None \<Rightarrow> (Inl (Error ''Server is not created yet''), this)
      | Some s \<Rightarrow>
          (Inr (), this\<lparr>server := Some (s\<lparr>ext_onRequest := ext_onRequest s @ [fn]\<rparr>)\<rparr>))"

definition registerOnPreResponse :: "OnPreResponseHandler \<Rightarrow> HttpServer \<Rightarrow> unit result" where
  "registerOnPreResponse fn this =
     (case server this of
        None \<Rightarrow> (Inl (Error ''Server is not created yet''), this)
      | Some s \<Rightarrow>
          (Inr (),
           this\<lparr>server := Some (s\<lparr>ext_onPreResponse := ext_onPreResponse s @ [fn]\<rparr>)\<rparr>))"

text \<open>
  The handler that \<open>setupBasePathRewrite\<close> registers:
  \<^verbatim>\<open>
  (request, toolkit) => {
    const newURL = modifyUrl(request.url.href!, urlParts => {
      if (urlParts.pathname != null && urlParts.pathname.startsWith(basePath)) {
        urlParts.pathname = urlParts.pathname.replace(basePath, '') || '/';
      } else {
        return {};
      }
    });
    if (!newURL) {
      return toolkit.rejected(new Error('not found'), { statusCode: 404 });
    }
    return toolkit.redirected(newURL, { forward: true });
  }
  \<close>
\<close>

definition stripBasePath :: "string \<Rightarrow> URLMeaningfulParts \<Rightarrow> URLMeaningfulParts" where
  "stripBasePath basePath' urlParts =
     (case pathname urlParts of
        None \<Rightarrow> empty_parts
      | Some p \<Rightarrow>
          if startsWith p basePath'
          then urlParts\<lparr>pathname :=
                 Some (let r = replace p basePath' [] in if r = [] then ''/'' else r)\<rparr>
          else empty_parts)"

definition basePathRewriteHandler :: "string \<Rightarrow> OnPreAuthHandler" where
  "basePathRewriteHandler basePath' request =
     (let newURL = modifyUrl (url_href request) (stripBasePath basePath')
      in if newURL = [] then Rejected (Error ''not found'') 404
         else Redirected newURL True)"

definition setupBasePathRewrite :: "HttpConfig \<Rightarrow> HttpServer \<Rightarrow> unit result" where
  "setupBasePathRewrite config this =
     (case basePath config of
        None \<Rightarrow> (Inr (), this)
      | Some basePath' \<Rightarrow>
          if \<not> rewriteBasePath config then (Inr (), this)
          else registerOnPreAuth (basePathRewriteHandler basePath') this)"

text \<open>
  \<open>setup\<close> returns the contract object, whose members are the methods of the class bound
  to the instance (and to \<open>config\<close>); of its data, the result keeps \<open>options\<close>.
  The method \<open>setup\<close> is \<open>setup_server\<close> here, \<open>setup\<close> being a word of Isabelle.
\<close>

definition setup_server :: "HttpConfig \<Rightarrow> HttpServer \<Rightarrow> ServerOptions result" where
  "setup_server config this =
     (let serverOptions = getServerOptions config;
          this1 = this\<lparr>server := Some (createServer serverOptions)\<rparr>
      in case setupBasePathRewrite config this1 of
           (Inl e, this2) \<Rightarrow> (Inl e, this2)
         | (Inr u, this2) \<Rightarrow> (Inr serverOptions, this2))"

text \<open>
  The two nested loops of \<open>start\<close>, the inner one over the routes of a router, the outer
  one over the registered routers. When \<open>server.route\<close> throws, the loops end there:
  the routes bound so far stay in the server, the others are not bound, and \<open>start\<close>
  rejects with the error. \<open>await this.server.start()\<close> is a call into hapi: its outcome
  \<open>listen\<close> is \<open>None\<close> when the promise resolves, and the listener listens, or the
  error it rejects with.
\<close>

definition bindRoute :: "bool \<Rightarrow> string \<Rightarrow> Route \<Rightarrow> ServerRoute" where
  "bindRoute authRegistered' routerPath route =
     (let isAuthRequired = (authRegistered' \<and> authRequired route)
      in \<lparr>sr_handler = route_handler route,
          sr_method = route_method route,
          sr_path = getRouteFullPath routerPath (route_path route),
          sr_auth = (if isAuthRequired then AuthDefault else AuthDisabled)\<rparr>)"

fun bindRoutes ::
  "route_check \<Rightarrow> bool \<Rightarrow> string \<Rightarrow> Route list \<Rightarrow> HapiServer
     \<Rightarrow> error option \<times> HapiServer" where
  "bindRoutes check authRegistered' routerPath [] s = (None, s)"
| "bindRoutes check authRegistered' routerPath (route # routes) s =
     (case server_route check (bindRoute authRegistered' routerPath route) s of
        Inl e \<Rightarrow> (Some e, s)
      | Inr s1 \<Rightarrow> bindRoutes check authRegistered' routerPath routes s1)"

fun bindRouters ::
  "route_check \<Rightarrow> bool \<Rightarrow> Router list \<Rightarrow> HapiServer \<Rightarrow> error option \<times> HapiServer" where
  "bindRouters check authRegistered' [] s = (None, s)"
| "bindRouters check authRegistered' (router # routers) s =
     (case bindRoutes check authRegistered' (router_path router) (getRoutes router) s of
        (Some e, s1) \<Rightarrow> (Some e, s1)
      | (None, s1) \<Rightarrow> bindRouters check authRegistered' routers s1)"

definition start ::
  "HttpConfig \<Rightarrow> route_check \<Rightarrow> error option \<Rightarrow> HttpServer \<Rightarrow> unit result" where
  "start config check listen this =
     (case server this of
        None \<Rightarrow> (Inl (Error ''Http server is not setup up yet''), this)
      | Some s \<Rightarrow>
          (case bindRouters check (authRegistered this) (registeredRouters this) s of
             (Some e, s1) \<Rightarrow> (Inl e, this\<lparr>server := Some s1\<rparr>)
           | (None, s1) \<Rightarrow>
               (case listen of
                  Some e \<Rightarrow> (Inl e, this\<lparr>server := Some s1\<rparr>)
                | None \<Rightarrow> (Inr (), this\<lparr>server := Some (s1\<lparr>listening := True\<rparr>)\<rparr>))))"


text \<open>\<open>closed\<close> is the outcome of \<open>await this.server.stop()\<close>, as for \<open>start\<close>.\<close>

definition stop :: "error option \<Rightarrow> HttpServer \<Rightarrow> unit result" where
  "stop closed this =
     (case server this of
        None \<Rightarrow> (Inr (), this)
      | Some s \<Rightarrow>
          (case closed of
             Some e \<Rightarrow> (Inl e, this)
           | None \<Rightarrow> (Inr (), this\<lparr>server := None\<rparr>)))"

text \<open>
  \<open>registerAuth\<close> is \<open>async\<close>. Up to its \<open>await\<close> it checks and sets the flag
  (\<open>registerAuth_begin\<close>); it then awaits \<open>createCookieSessionStorageFactory\<close>, a
  call out of the class that is given the server, the cookie options and the base path:
  \<open>storage\<close> is \<open>None\<close> when it resolves and the error when it rejects, in which
  case the rest of the method does not run. After the \<open>await\<close> (\<open>registerAuth_resume\<close>)
  the scheme is installed on \<open>this.server\<close> under the name \<open>login\<close> with the handler,
  the strategy \<open>session\<close> is made from it and made the default. A call is taken as a
  whole: nothing else happens to the instance while it awaits.
\<close>

definition installScheme :: "AuthenticationHandler \<Rightarrow> HapiServer \<Rightarrow> HapiServer" where
  "installScheme fn s =
     s\<lparr>auth_schemes := auth_schemes s @ [(''login'', fn)],
       auth_strategies := auth_strategies s @ [(''session'', ''login'')],
       auth_default := Some ''session''\<rparr>"

definition registerAuth_begin :: "HttpServer \<Rightarrow> unit result" where
  "registerAuth_begin this =
     (case server this of
        None \<Rightarrow> (Inl (Error ''Server is not created yet''), this)
      | Some s \<Rightarrow>
          if authRegistered this
          then (Inl (Error ''Auth interceptor was already registered''), this)
          else (Inr (), this\<lparr>authRegistered := True\<rparr>))"

definition registerAuth_resume ::
  "AuthenticationHandler \<Rightarrow> error option \<Rightarrow> HttpServer \<Rightarrow> unit result" where
  "registerAuth_resume fn storage this =
     (case storage of
        Some e \<Rightarrow> (Inl e, this)
      | None \<Rightarrow>
          (case server this of
             None \<Rightarrow> (Inl TypeError, this)
           | Some s \<Rightarrow> (Inr (), this\<lparr>server := Some (installScheme fn s)\<rparr>)))"

definition registerAuth ::
  "AuthenticationHandler \<Rightarrow> SessionStorageCookieOptions \<Rightarrow> string option \<Rightarrow> error option
     \<Rightarrow> HttpServer \<Rightarrow> unit result" where
  "registerAuth fn cookieOptions basePath' storage this =
     (case registerAuth_begin this of
        (Inl e, this1) \<Rightarrow> (Inl e, this1)
      | (Inr u, this1) \<Rightarrow> registerAuth_resume fn storage this1)"

text \<open>
  The callback that \<open>registerAuth\<close> hands to the scheme,
  \<open>(req, state) => { this.authState.set(req.raw.req, state); }\<close>, which the scheme
  calls for a request that its handler authenticated.
\<close>

definition onAuthSuccess :: "HapiRequest \<Rightarrow> js_value \<Rightarrow> HttpServer \<Rightarrow> HttpServer" where
  "onAuthSuccess req state' this =
     this\<lparr>authState := (authState this)(raw_req req \<mapsto> state')\<rparr>"

datatype AuthStatus = authenticated | unauthenticated | unknown

record AuthData =
  status :: AuthStatus
  state :: js_value

definition getAuthData :: "AnyRequest \<Rightarrow> HttpServer \<Rightarrow> AuthData" where
  "getAuthData request this =
     (let incomingMessage = incomingMessageOf request;
          hasState = (authState this incomingMessage \<noteq> None);
          state' = (case authState this incomingMessage of
                      None \<Rightarrow> Undefined | Some v \<Rightarrow> v);
          status' = (if hasState then authenticated
                     else if authRegistered this then unauthenticated
                     else unknown)
      in \<lparr>status = status', state = state'\<rparr>)"

definition isAuthenticated :: "AnyRequest \<Rightarrow> HttpServer \<Rightarrow> bool" where
  "isAuthenticated request this = (status (getAuthData request this) = authenticated)"

subsection \<open>Runs of a server instance\<close>

text \<open>
  What can happen to an instance: a call of one of its methods, through the contract or
  directly, or the installed scheme authenticating a request, which runs the callback.
  The scheme runs only on a server it was installed on. A call that throws leaves the
  instance as the method left it.
\<close>

datatype event =
  Setup HttpConfig
| Start HttpConfig route_check "error option"
| Stop "error option"
| RegisterRouter Router
| RegisterOnPreAuth OnPreAuthHandler
| RegisterOnPostAuth OnPostAuthHandler
| RegisterOnPreResponse OnPreResponseHandler
| RegisterAuth AuthenticationHandler SessionStorageCookieOptions "string option" "error option"
| SetBasePathFor AnyRequest string
| Authenticate HapiRequest js_value

definition schemeInstalled :: "HttpServer \<Rightarrow> bool" where
  "schemeInstalled this =
     (case server this of None \<Rightarrow> False | Some s \<Rightarrow> auth_schemes s \<noteq> [])"

fun step :: "event \<Rightarrow> HttpServer \<Rightarrow> HttpServer" where
  "step (Setup config) this = snd (setup_server config this)"
| "step (Start config check listen) this = snd (start config check listen this)"
| "step (Stop closed) this = snd (stop closed this)"
| "step (RegisterRouter router) this = snd (registerRouter router this)"
| "step (RegisterOnPreAuth fn) this = snd (registerOnPreAuth fn this)"
| "step (RegisterOnPostAuth fn) this = snd (registerOnPostAuth fn this)"
| "step (RegisterOnPreResponse fn) this = snd (registerOnPreResponse fn this)"
| "step (RegisterAuth fn cookieOptions basePath' storage) this =
     snd (registerAuth fn cookieOptions basePath' storage this)"
| "step (SetBasePathFor request basePath') this = snd (setBasePathFor request basePath' this)"
| "step (Authenticate req state') this =
     (if schemeInstalled this then onAuthSuccess req state' this else this)"

fun run :: "event list \<Rightarrow> HttpServer \<Rightarrow> HttpServer" where
  "run [] this = this"
| "run (e # es) this = run es (step e this)"

text \<open>
  Whether a call of \<open>registerAuth\<close> in a run passed both checks of the method: the server
  existed and the flag was not set when the call was made.
\<close>

fun passesAuthChecks :: "event \<Rightarrow> HttpServer \<Rightarrow> bool" where
  "passesAuthChecks (RegisterAuth fn cookieOptions basePath' storage) this =
     (server this \<noteq> None \<and> \<not> authRegistered this)"
| "passesAuthChecks e this = False"

fun everRegistered :: "event list \<Rightarrow> HttpServer \<Rightarrow> bool" where
  "everRegistered [] this = False"
| "everRegistered (e # es) this =
     (passesAuthChecks e this \<or> everRegistered es (step e this))"

text \<open>
  Whether a scheme was installed on the server of the instance at some moment of a run
  (before it, between two events or after it).
\<close>

fun everInstalled :: "event list \<Rightarrow> HttpServer \<Rightarrow> bool" where
  "everInstalled [] this = schemeInstalled this"
| "everInstalled (e # es) this = (schemeInstalled this \<or> everInstalled es (step e this))"

text \<open>
  The invariant of the runs: a scheme is installed, and a request has an auth record,
  only when the flag is set; a server has a default strategy exactly when it has a scheme.
\<close>

definition authInv :: "HttpServer \<Rightarrow> bool" where
  "authInv this \<longleftrightarrow>
     (schemeInstalled this \<longrightarrow> authRegistered this)
     \<and> (\<forall>m. authState this m \<noteq> None \<longrightarrow> authRegistered this)
     \<and> (\<forall>s. server this = Some s \<longrightarrow> (auth_default s \<noteq> None \<longleftrightarrow> auth_schemes s \<noteq> []))"

subsection \<open>Example values\<close>

definition plain_config :: HttpConfig where
  "plain_config =
     \<lparr>basePath = None, rewriteBasePath = False, host = ''localhost'', port = 5601\<rparr>"

definition app_config :: HttpConfig where
  "app_config =
     \<lparr>basePath = Some ''/app'', rewriteBasePath = True, host = ''localhost'', port = 5601\<rparr>"

definition sid_cookie :: SessionStorageCookieOptions where
  "sid_cookie = \<lparr>cookie_name = ''sid'', encryptionKey = ''secret'', isSecure = True\<rparr>"

definition api_router :: Router where
  "api_router =
     \<lparr>router_ref = 1, router_path = ''/api/'',
      getRoutes =
        [\<lparr>route_handler = 10, route_method = ''GET'', route_path = ''/widgets'',
          authRequired = True\<rparr>,
         \<lparr>route_handler = 11, route_method = ''GET'', route_path = ''status'',
          authRequired = False\<rparr>]\<rparr>"

text \<open>
  An example of a verdict of hapi on a route: it refuses a path that does not start with
  a slash and a route whose method and path a route of the table has.
\<close>

definition example_check :: route_check where
  "example_check s r =
     (if \<not> startsWith (sr_path r) ''/'' then Some (Error ''Invalid path'')
      else if (sr_method r, sr_path r) \<in> set (map (\<lambda>b. (sr_method b, sr_path b)) (route_table s))
      then Some (Error ''New route conflicts with existing'')
      else None)"

definition storage_failed :: error where
  "storage_failed = Error ''storage failed''"

definition configured :: HttpServer where
  "configured = new_HttpServer\<lparr>server := Some (createServer (getServerOptions plain_config))\<rparr>"

section \<open>Properties\<close>

subsection \<open>String helpers\<close>

lemma startsWith_Cons_iff:
  "startsWith s [c] \<longleftrightarrow> (\<exists>t. s = c # t)"
  by (cases s) (auto simp: startsWith_def)

lemma endsWith_snoc_iff:
  "endsWith s [c] \<longleftrightarrow> (\<exists>t. s = t @ [c])"
proof (cases s rule: rev_cases)
  case Nil
  then show ?thesis by (simp add: endsWith_def)
next
  case (snoc t x)
  then show ?thesis by (auto simp: endsWith_def)
qed

subsection \<open>Route path joining\<close>

text \<open>
  C3 (as amended). The full path of a route is the router's path followed by the
  route's path, and the only transformation is that the leading slash of the route's
  path is dropped when the router's path ends with a slash and the route's path starts
  with one; nothing is ever inserted. So \<open>/api/\<close> and \<open>/widgets\<close> give \<open>/api/widgets\<close>,
  and \<open>/api\<close> and \<open>widgets\<close> give \<open>/apiwidgets\<close>.
\<close>

theorem getRouteFullPath_join:
  "getRouteFullPath routerPath routePath =
     (if endsWith routerPath ''/'' \<and> startsWith routePath ''/''
      then routerPath @ tl routePath else routerPath @ routePath)
   \<and> (endsWith routerPath ''/'' \<and> startsWith routePath ''/''
        \<longrightarrow> getRouteFullPath routerPath routePath = butlast routerPath @ routePath
          \<and> length (getRouteFullPath routerPath routePath) + 1
              = length routerPath + length routePath)
   \<and> getRouteFullPath ''/api/'' ''/widgets'' = ''/api/widgets''
   \<and> getRouteFullPath ''/api'' ''widgets'' = ''/apiwidgets''"
proof -
  have plain: "getRouteFullPath routerPath routePath =
     (if endsWith routerPath ''/'' \<and> startsWith routePath ''/''
      then routerPath @ tl routePath else routerPath @ routePath)"
    by (simp add: getRouteFullPath_def slice_def drop_Suc)
  have collapse: "getRouteFullPath routerPath routePath = butlast routerPath @ routePath
      \<and> length (getRouteFullPath routerPath routePath) + 1
          = length routerPath + length routePath"
    if "endsWith routerPath ''/''" and "startsWith routePath ''/''"
  proof -
    from that obtain t u where "routerPath = t @ ''/''" and "routePath = CHR ''/'' # u"
      by (auto simp: endsWith_snoc_iff startsWith_Cons_iff)
    with that plain show ?thesis by simp
  qed
  have e1: "getRouteFullPath ''/api/'' ''/widgets'' = ''/api/widgets''"
    by (simp add: getRouteFullPath_def slice_def endsWith_def startsWith_def)
  have e2: "getRouteFullPath ''/api'' ''widgets'' = ''/apiwidgets''"
    by (simp add: getRouteFullPath_def slice_def endsWith_def startsWith_def)
  from plain collapse e1 e2 show ?thesis by blast
qed

theorem getRouteFullPath_join_witness:
  "endsWith ''/api/'' ''/'' \<and> startsWith ''/widgets'' ''/''
   \<and> getRouteFullPath ''/api/'' ''/widgets'' = butlast ''/api/'' @ ''/widgets''
   \<and> getRouteFullPath ''/api/'' ''/widgets'' = ''/api/widgets''"
  using getRouteFullPath_join [of "''/api/''" "''/widgets''"]
  by (simp add: endsWith_def startsWith_def)

text \<open>
  C3 as stated says that \<open>/api\<close> and \<open>widgets\<close> do not give \<open>/apiwidgets\<close>; they do.
\<close>

theorem getRouteFullPath_no_slash_inserted:
  "getRouteFullPath ''/api'' ''widgets'' = ''/apiwidgets''"
  by (simp add: getRouteFullPath_def slice_def endsWith_def startsWith_def)


subsection \<open>Frame lemmas and invariants\<close>

lemmas registerAuth_defs = registerAuth_def registerAuth_begin_def registerAuth_resume_def

lemmas method_defs =
  setup_server_def setupBasePathRewrite_def registerOnPreAuth_def registerOnPostAuth_def
  registerOnPreResponse_def stop_def registerRouter_def registerAuth_defs
  setBasePathFor_def onAuthSuccess_def

lemma bindRoutes_table:
  "\<exists>k \<le> length routes.
     snd (bindRoutes check a rp routes s) =
       s\<lparr>route_table := route_table s @ take k (map (bindRoute a rp) routes)\<rparr>
     \<and> (fst (bindRoutes check a rp routes s) = None \<longrightarrow> k = length routes)"
proof (induction routes arbitrary: s)
  case Nil
  show ?case by simp
next
  case (Cons route routes)
  show ?case
  proof (cases "check s (bindRoute a rp route)")
    case (Some e)
    then have r: "bindRoutes check a rp (route # routes) s = (Some e, s)"
      by (simp add: server_route_def)
    have "0 \<le> length (route # routes)
        \<and> snd (Some e, s) = s\<lparr>route_table := route_table s
              @ take 0 (map (bindRoute a rp) (route # routes))\<rparr>
        \<and> (fst (Some e, s) = None \<longrightarrow> 0 = length (route # routes))"
      by simp
    then show ?thesis unfolding r by (rule_tac x = 0 in exI)
  next
    case None
    let ?s1 = "s\<lparr>route_table := route_table s @ [bindRoute a rp route]\<rparr>"
    from None have unf: "bindRoutes check a rp (route # routes) s = bindRoutes check a rp routes ?s1"
      by (simp add: server_route_def)
    from Cons.IH [of ?s1] obtain k where kk: "k \<le> length routes
        \<and> snd (bindRoutes check a rp routes ?s1) =
          ?s1\<lparr>route_table := route_table ?s1 @ take k (map (bindRoute a rp) routes)\<rparr>
        \<and> (fst (bindRoutes check a rp routes ?s1) = None \<longrightarrow> k = length routes)"
      by (rule exE)
    note k = kk [THEN conjunct1]
    note eq = kk [THEN conjunct2, THEN conjunct1]
    note all = kk [THEN conjunct2, THEN conjunct2]
    have t: "snd (bindRoutes check a rp routes ?s1) =
        s\<lparr>route_table := route_table s @ take (Suc k) (map (bindRoute a rp) (route # routes))\<rparr>"
      by (subst eq) simp
    from k have k': "Suc k \<le> length (route # routes)" by simp
    from all have all': "fst (bindRoutes check a rp routes ?s1) = None
        \<longrightarrow> Suc k = length (route # routes)"
      by simp
    from k' t all' show ?thesis unfolding unf by (intro exI [of _ "Suc k"] conjI)
  qed
qed

lemma bindRouters_table:
  "\<exists>k \<le> length (concat (map (\<lambda>router. map (bindRoute a (router_path router)) (getRoutes router))
                       routers)).
     snd (bindRouters check a routers s) =
       s\<lparr>route_table := route_table s
          @ take k (concat (map (\<lambda>router. map (bindRoute a (router_path router)) (getRoutes router))
                      routers))\<rparr>
     \<and> (fst (bindRouters check a routers s) = None \<longrightarrow>
          k = length (concat (map (\<lambda>router.
                map (bindRoute a (router_path router)) (getRoutes router)) routers)))"
proof (induction routers arbitrary: s)
  case Nil
  show ?case by simp
next
  case (Cons router routers)
  let ?A = "map (bindRoute a (router_path router)) (getRoutes router)"
  let ?B = "concat (map (\<lambda>router. map (bindRoute a (router_path router)) (getRoutes router))
              routers)"
  let ?inner = "bindRoutes check a (router_path router) (getRoutes router) s"
  from bindRoutes_table [of "getRoutes router" check a "router_path router" s]
  obtain k where kk: "k \<le> length (getRoutes router)
      \<and> snd ?inner = s\<lparr>route_table := route_table s @ take k ?A\<rparr>
      \<and> (fst ?inner = None \<longrightarrow> k = length (getRoutes router))"
    by (rule exE)
  note k = kk [THEN conjunct1]
  note eq = kk [THEN conjunct2, THEN conjunct1]
  note all = kk [THEN conjunct2, THEN conjunct2]
  have cc: "concat (map (\<lambda>router. map (bindRoute a (router_path router)) (getRoutes router))
      (router # routers)) = ?A @ ?B"
    by simp
  show ?case
  proof (cases "fst ?inner")
    case (Some e)
    then have r: "bindRouters check a (router # routers) s = (Some e, snd ?inner)"
      by (cases ?inner) simp
    from k have k1: "k \<le> length (?A @ ?B)" by simp
    from k have t: "snd (Some e, snd ?inner) = s\<lparr>route_table := route_table s @ take k (?A @ ?B)\<rparr>"
      by (simp add: eq)
    have f: "fst (Some e, snd ?inner) = None \<longrightarrow> k = length (?A @ ?B)"
      by simp
    from k1 t f show ?thesis unfolding r cc by (intro exI [of _ k] conjI)
  next
    case None
    let ?s1 = "snd ?inner"
    from None have unf: "bindRouters check a (router # routers) s = bindRouters check a routers ?s1"
      by (cases ?inner) simp
    from None all have kl: "k = length (getRoutes router)" by simp
    have full: "?s1 = s\<lparr>route_table := route_table s @ ?A\<rparr>"
      by (simp add: eq kl)
    from Cons.IH [of ?s1] obtain j where jj: "j \<le> length ?B
        \<and> snd (bindRouters check a routers ?s1) =
            ?s1\<lparr>route_table := route_table ?s1 @ take j ?B\<rparr>
        \<and> (fst (bindRouters check a routers ?s1) = None \<longrightarrow> j = length ?B)"
      by (rule exE)
    note j = jj [THEN conjunct1]
    note eq2 = jj [THEN conjunct2, THEN conjunct1]
    note all2 = jj [THEN conjunct2, THEN conjunct2]
    have rt1: "route_table ?s1 = route_table s @ ?A"
      by (subst full) simp
    have "snd (bindRouters check a routers ?s1) =
        (s\<lparr>route_table := route_table s @ ?A\<rparr>)\<lparr>route_table := (route_table s @ ?A) @ take j ?B\<rparr>"
      by (subst eq2, subst rt1, subst full) (rule refl)
    then have tbl: "snd (bindRouters check a routers ?s1) =
        s\<lparr>route_table := route_table s @ take (length ?A + j) (?A @ ?B)\<rparr>"
      by simp
    from j have j1: "length ?A + j \<le> length (?A @ ?B)" by simp
    from all2 have f: "fst (bindRouters check a routers ?s1) = None
        \<longrightarrow> length ?A + j = length (?A @ ?B)"
      by simp
    from j1 tbl f show ?thesis unfolding unf cc by (intro exI [of _ "length ?A + j"] conjI)
  qed
qed

lemma bindRouters_frame:
  "auth_schemes (snd (bindRouters check a routers s)) = auth_schemes s
   \<and> auth_default (snd (bindRouters check a routers s)) = auth_default s
   \<and> listening (snd (bindRouters check a routers s)) = listening s"
proof -
  from bindRouters_table [of a routers check s] obtain k where kk:
    "k \<le> length (concat (map (\<lambda>router. map (bindRoute a (router_path router)) (getRoutes router))
                       routers))
     \<and> snd (bindRouters check a routers s) =
       s\<lparr>route_table := route_table s
          @ take k (concat (map (\<lambda>router. map (bindRoute a (router_path router)) (getRoutes router))
                      routers))\<rparr>
     \<and> (fst (bindRouters check a routers s) = None \<longrightarrow>
          k = length (concat (map (\<lambda>router.
                map (bindRoute a (router_path router)) (getRoutes router)) routers)))"
    by (rule exE)
  show ?thesis
    by (subst kk [THEN conjunct2, THEN conjunct1])+ simp
qed

lemma start_server:
  "server this = Some s \<Longrightarrow>
     \<exists>s1. server (snd (start config check listen this))
            = Some (s1\<lparr>listening := (listening s1 \<or> fst (start config check listen this) = Inr ())\<rparr>)
          \<and> s1 = snd (bindRouters check (authRegistered this) (registeredRouters this) s)
          \<and> (fst (start config check listen this) = Inr () \<longrightarrow>
               fst (bindRouters check (authRegistered this) (registeredRouters this) s) = None)"
  by (auto simp: start_def split: prod.splits option.splits)

lemma start_fields:
  "authRegistered (snd (start config check listen this)) = authRegistered this
   \<and> authState (snd (start config check listen this)) = authState this
   \<and> registeredRouters (snd (start config check listen this)) = registeredRouters this
   \<and> basePathCache (snd (start config check listen this)) = basePathCache this
   \<and> (server (snd (start config check listen this)) = None \<longleftrightarrow> server this = None)"
  by (auto simp: start_def split: prod.splits option.splits)

lemma start_schemes:
  "server this = Some s \<Longrightarrow> server (snd (start config check listen this)) = Some s' \<Longrightarrow>
     auth_schemes s' = auth_schemes s \<and> auth_default s' = auth_default s"
  using start_server [of this s config check listen] bindRouters_frame [of check "authRegistered this" "registeredRouters this" s]
  by auto

text \<open>The flag is set by a call of \<open>registerAuth\<close> that passes the checks, and by nothing
  else; nothing clears it.\<close>

lemma authRegistered_step_iff:
  "authRegistered (step e this) \<longleftrightarrow> authRegistered this \<or> passesAuthChecks e this"
  by (cases e)
    (auto simp: method_defs start_fields Let_def
      split: option.splits if_splits prod.splits sum.splits)

lemma authRegistered_run_iff:
  "authRegistered (run evs this) \<longleftrightarrow> authRegistered this \<or> everRegistered evs this"
  by (induction evs arbitrary: this) (auto simp: authRegistered_step_iff)

lemma authRegistered_run: "authRegistered this \<Longrightarrow> authRegistered (run evs this)"
  by (simp add: authRegistered_run_iff)

lemma authInv_new: "authInv new_HttpServer"
  by (simp add: authInv_def new_HttpServer_def schemeInstalled_def)

lemma authInv_start: "authInv this \<Longrightarrow> authInv (snd (start config check listen this))"
proof (cases "server this")
  case None
  then have "snd (start config check listen this) = this"
    by (simp add: start_def)
  then show "authInv this \<Longrightarrow> ?thesis" by simp
next
  case (Some s)
  from start_server [OF Some, of config check listen]
  obtain s' where s': "server (snd (start config check listen this)) = Some s'"
    by blast
  from start_schemes [OF Some s'] have same: "auth_schemes s' = auth_schemes s"
    "auth_default s' = auth_default s"
    by simp_all
  assume "authInv this"
  with Some s' same show ?thesis
    by (simp add: authInv_def schemeInstalled_def start_fields)
qed

lemma authInv_step: "authInv this \<Longrightarrow> authInv (step e this)"
proof (cases e)
  case (Start config check listen)
  assume "authInv this"
  with Start show ?thesis by (simp add: authInv_start)
qed (auto simp: authInv_def schemeInstalled_def method_defs createServer_def installScheme_def
      Let_def split: option.splits if_splits prod.splits sum.splits)

lemma everInstalled_registered:
  "authInv this \<Longrightarrow> everInstalled evs this \<Longrightarrow> authRegistered (run evs this)"
proof (induction evs arbitrary: this)
  case Nil
  then show ?case by (simp add: authInv_def)
next
  case (Cons e es)
  show ?case
  proof (cases "schemeInstalled this")
    case True
    with Cons.prems have "authRegistered this" by (simp add: authInv_def)
    then show ?thesis by (rule authRegistered_run)
  next
    case False
    with Cons.prems have "everInstalled es (step e this)" by simp
    moreover from Cons.prems have "authInv (step e this)" by (simp add: authInv_step)
    ultimately show ?thesis using Cons.IH by simp
  qed
qed

lemma authInv_run: "authInv this \<Longrightarrow> authInv (run evs this)"
  by (induction evs arbitrary: this) (auto simp: authInv_step)

lemma registerAuth_registered:
  "authRegistered this \<Longrightarrow>
     registerAuth fn co bp storage this =
       (Inl (Error (if server this = None then ''Server is not created yet''
                    else ''Auth interceptor was already registered'')), this)"
  by (simp add: registerAuth_defs split: option.splits)

lemma replace_startsWith:
  "startsWith p b \<Longrightarrow> replace p b [] = drop (length b) p"
  by (cases p) (auto simp: startsWith_def)

lemma formatUrl_pathname_nonempty:
  "pathname parts = Some p \<Longrightarrow> p \<noteq> [] \<Longrightarrow> formatUrl parts \<noteq> []"
  by (simp add: formatUrl_def)

lemma formatUrl_empty_parts: "formatUrl empty_parts = []"
  by (simp add: formatUrl_def empty_parts_def)

lemma basePathRewriteHandler_cases:
  "basePathRewriteHandler bp request =
     (case pathname (parseUrl (url_href request)) of
        None \<Rightarrow> Rejected (Error ''not found'') 404
      | Some p \<Rightarrow>
          if startsWith p bp
          then Redirected
                 (formatUrl ((parseUrl (url_href request))\<lparr>pathname :=
                    Some (if drop (length bp) p = [] then ''/'' else drop (length bp) p)\<rparr>))
                 True
          else Rejected (Error ''not found'') 404)"
proof (cases "pathname (parseUrl (url_href request))")
  case None
  then show ?thesis
    by (simp add: basePathRewriteHandler_def modifyUrl_def stripBasePath_def
        formatUrl_empty_parts)
next
  case (Some p)
  show ?thesis
  proof (cases "startsWith p bp")
    case True
    let ?q = "if drop (length bp) p = [] then ''/'' else drop (length bp) p"
    let ?parts = "(parseUrl (url_href request))\<lparr>pathname := Some ?q\<rparr>"
    have strip: "stripBasePath bp (parseUrl (url_href request)) = ?parts"
      using Some True by (simp add: stripBasePath_def replace_startsWith Let_def)
    have "formatUrl ?parts \<noteq> []"
      by (rule formatUrl_pathname_nonempty [where p = ?q]) simp_all
    with strip Some True show ?thesis
      by (simp add: basePathRewriteHandler_def modifyUrl_def Let_def)
  next
    case False
    with Some show ?thesis
      by (simp add: basePathRewriteHandler_def modifyUrl_def stripBasePath_def
          formatUrl_empty_parts)
  qed
qed

lemmas url_defs =
  basePathRewriteHandler_def modifyUrl_def stripBasePath_def parseUrl_def formatUrl_def
  is_path_char_def startsWith_def empty_parts_def

lemma setup_server_eq:
  "setup_server config this =
     (Inr (getServerOptions config),
      this\<lparr>server := Some ((createServer (getServerOptions config))
        \<lparr>ext_onRequest :=
           (case basePath config of
              None \<Rightarrow> []
            | Some bp \<Rightarrow> if rewriteBasePath config then [basePathRewriteHandler bp] else [])\<rparr>)\<rparr>)"
  by (simp add: setup_server_def setupBasePathRewrite_def registerOnPreAuth_def
      createServer_def Let_def split: option.splits)

subsection \<open>Authentication status\<close>

text \<open>
  C1 (as amended). On an instance that was created and then driven by any sequence of
  events, \<open>auth.get\<close> reports one status for a request, by this precedence:
  \<open>authenticated\<close> if the request identity has an auth record; otherwise
  \<open>unauthenticated\<close> if the registered flag is set; otherwise \<open>unknown\<close>. The flag is
  set exactly when some call of \<open>registerAuth\<close> so far passed its checks, whether or not
  the scheme was installed afterwards, and a record exists only then: the status is
  \<open>unknown\<close> if and only if no call of \<open>registerAuth\<close> has passed its checks. When a
  scheme was installed at some moment, the status is not \<open>unknown\<close>.
\<close>

theorem getAuthData_status:
  "status (getAuthData request (run evs new_HttpServer)) =
     (if authState (run evs new_HttpServer) (incomingMessageOf request) \<noteq> None
      then authenticated
      else if authRegistered (run evs new_HttpServer) then unauthenticated
      else unknown)
   \<and> (status (getAuthData request (run evs new_HttpServer)) = unknown
        \<longleftrightarrow> \<not> everRegistered evs new_HttpServer)
   \<and> (authRegistered (run evs new_HttpServer) \<longleftrightarrow> everRegistered evs new_HttpServer)
   \<and> (isAuthenticated request (run evs new_HttpServer)
        \<longleftrightarrow> authState (run evs new_HttpServer) (incomingMessageOf request) \<noteq> None)
   \<and> (everInstalled evs new_HttpServer
        \<longrightarrow> status (getAuthData request (run evs new_HttpServer)) \<noteq> unknown)"
proof -
  let ?st = "run evs new_HttpServer"
  have flag: "authRegistered ?st \<longleftrightarrow> everRegistered evs new_HttpServer"
    by (simp add: authRegistered_run_iff new_HttpServer_def)
  have "authInv ?st"
    by (rule authInv_run [OF authInv_new])
  then have rec: "authState ?st m \<noteq> None \<Longrightarrow> authRegistered ?st" for m
    unfolding authInv_def by blast
  have st: "status (getAuthData request ?st) =
     (if authState ?st (incomingMessageOf request) \<noteq> None then authenticated
      else if authRegistered ?st then unauthenticated else unknown)"
    by (simp add: getAuthData_def Let_def)
  have unk: "status (getAuthData request ?st) = unknown
      \<longleftrightarrow> \<not> everRegistered evs new_HttpServer"
    using rec [of "incomingMessageOf request"] flag by (auto simp: st)
  have isa: "isAuthenticated request ?st
      \<longleftrightarrow> authState ?st (incomingMessageOf request) \<noteq> None"
    by (simp add: isAuthenticated_def st)
  have inst: "status (getAuthData request ?st) \<noteq> unknown" if "everInstalled evs new_HttpServer"
  proof -
    from everInstalled_registered [OF authInv_new that] have "authRegistered ?st" .
    then show ?thesis by (simp add: st)
  qed
  from st unk flag isa inst show ?thesis by blast
qed

theorem getAuthData_status_witness:
  "status (getAuthData (Inr (HapiRequest 7))
     (run [Setup plain_config, RegisterAuth 1 sid_cookie None None,
           Authenticate (HapiRequest 7) (Value ''user'')] new_HttpServer)) = authenticated
   \<and> everRegistered [Setup plain_config, RegisterAuth 1 sid_cookie None None,
        Authenticate (HapiRequest 7) (Value ''user'')] new_HttpServer
   \<and> everInstalled [Setup plain_config, RegisterAuth 1 sid_cookie None None,
        Authenticate (HapiRequest 7) (Value ''user'')] new_HttpServer"
  using getAuthData_status [of "Inr (HapiRequest 7)"
      "[Setup plain_config, RegisterAuth 1 sid_cookie None None,
        Authenticate (HapiRequest 7) (Value ''user'')]"]
  by (simp add: method_defs plain_config_def new_HttpServer_def createServer_def
      installScheme_def schemeInstalled_def getAuthData_def incomingMessageOf_def Let_def)

text \<open>
  C1 as stated says that the status is \<open>unknown\<close> when no scheme was ever registered.
  After a call of \<open>registerAuth\<close> whose storage construction failed, no scheme was
  installed at any moment, the request has no record, and the status is
  \<open>unauthenticated\<close>.
\<close>

theorem getAuthData_unauthenticated_without_scheme:
  "status (getAuthData (Inr (HapiRequest 7))
     (run [Setup plain_config, RegisterAuth 1 sid_cookie None (Some storage_failed)]
        new_HttpServer)) = unauthenticated
   \<and> \<not> everInstalled [Setup plain_config, RegisterAuth 1 sid_cookie None (Some storage_failed)]
        new_HttpServer"
  by (simp add: method_defs plain_config_def new_HttpServer_def createServer_def
      schemeInstalled_def getAuthData_def incomingMessageOf_def Let_def)

subsection \<open>Registering authentication\<close>

text \<open>
  C2. \<open>registerAuth\<close> fails with \<open>Server is not created yet\<close> when the instance has no
  server. When a first call has passed the checks, a second call made right after it
  fails with \<open>Auth interceptor was already registered\<close>, whatever its arguments, and a
  second call made after any further events fails too; the failing call changes nothing.
\<close>

theorem registerAuth_twice:
  "(server this = None \<longrightarrow>
      registerAuth fn co bp storage this = (Inl (Error ''Server is not created yet''), this))
   \<and> (server this \<noteq> None \<and> \<not> authRegistered this \<longrightarrow>
        registerAuth fn co bp storage (snd (registerAuth fn1 co1 bp1 storage1 this)) =
          (Inl (Error ''Auth interceptor was already registered''),
           snd (registerAuth fn1 co1 bp1 storage1 this))
        \<and> isl (fst (registerAuth fn co bp storage
                      (run evs (snd (registerAuth fn1 co1 bp1 storage1 this)))))
        \<and> snd (registerAuth fn co bp storage
                  (run evs (snd (registerAuth fn1 co1 bp1 storage1 this))))
            = run evs (snd (registerAuth fn1 co1 bp1 storage1 this)))"
proof -
  let ?first = "registerAuth fn1 co1 bp1 storage1 this"
  have none: "registerAuth fn co bp storage this = (Inl (Error ''Server is not created yet''), this)"
    if "server this = None"
    using that by (simp add: registerAuth_defs)
  have ok: "authRegistered (snd ?first) \<and> server (snd ?first) \<noteq> None"
    if "server this \<noteq> None \<and> \<not> authRegistered this"
    using that by (auto simp: registerAuth_defs Let_def split: option.splits)
  have second: "registerAuth fn co bp storage (snd ?first) =
      (Inl (Error ''Auth interceptor was already registered''), snd ?first)"
    if "server this \<noteq> None \<and> \<not> authRegistered this"
    using ok [OF that] by (simp add: registerAuth_registered)
  have later: "isl (fst (registerAuth fn co bp storage (run evs (snd ?first))))
      \<and> snd (registerAuth fn co bp storage (run evs (snd ?first))) = run evs (snd ?first)"
    if "server this \<noteq> None \<and> \<not> authRegistered this"
  proof -
    from ok [OF that] have "authRegistered (run evs (snd ?first))"
      by (simp add: authRegistered_run)
    then show ?thesis by (simp add: registerAuth_registered)
  qed
  from none second later show ?thesis by blast
qed

theorem registerAuth_twice_witness:
  "server configured \<noteq> None \<and> \<not> authRegistered configured
   \<and> fst (registerAuth 1 sid_cookie None None configured) = Inr ()
   \<and> fst (registerAuth 2 sid_cookie (Some ''/app'') None
            (snd (registerAuth 1 sid_cookie None None configured)))
       = Inl (Error ''Auth interceptor was already registered'')
   \<and> server new_HttpServer = None
   \<and> fst (registerAuth 1 sid_cookie None None new_HttpServer)
       = Inl (Error ''Server is not created yet'')"
  using registerAuth_twice [of configured 2 sid_cookie "Some ''/app''" None 1 sid_cookie None None "[]"]
    registerAuth_twice [of new_HttpServer 1 sid_cookie None None 1 sid_cookie None None "[]"]
  by (simp add: configured_def new_HttpServer_def registerAuth_defs Let_def)

text \<open>
  C10. \<open>registerAuth\<close> sets the registered flag before the session storage is built and
  does not clear it when building fails. For a call that passes the checks: the flag is
  set when the call reaches its \<open>await\<close>; it is set when the call has finished,
  whatever the outcome of the storage construction; a failed construction leaves the
  instance changed in the flag alone; and every later call of \<open>registerAuth\<close>, after
  any events, fails and changes nothing.
\<close>

theorem registerAuth_flag_not_restored:
  assumes "server this \<noteq> None" and "\<not> authRegistered this"
  shows "registerAuth_begin this = (Inr (), this\<lparr>authRegistered := True\<rparr>)
    \<and> authRegistered (snd (registerAuth fn1 co1 bp1 storage1 this))
    \<and> (\<forall>e. storage1 = Some e \<longrightarrow>
           registerAuth fn1 co1 bp1 storage1 this = (Inl e, this\<lparr>authRegistered := True\<rparr>))
    \<and> isl (fst (registerAuth fn co bp storage
                    (run evs (snd (registerAuth fn1 co1 bp1 storage1 this)))))
    \<and> snd (registerAuth fn co bp storage
                (run evs (snd (registerAuth fn1 co1 bp1 storage1 this))))
          = run evs (snd (registerAuth fn1 co1 bp1 storage1 this))"
proof -
  let ?first = "registerAuth fn1 co1 bp1 storage1 this"
  have atAwait: "registerAuth_begin this = (Inr (), this\<lparr>authRegistered := True\<rparr>)"
    using assms by (auto simp: registerAuth_begin_def split: option.splits)
  have flag: "authRegistered (snd ?first)"
    by (auto simp: registerAuth_def registerAuth_resume_def atAwait split: option.splits)
  have failed: "?first = (Inl e, this\<lparr>authRegistered := True\<rparr>)" if "storage1 = Some e" for e
    using that by (simp add: registerAuth_def registerAuth_resume_def atAwait)
  from flag have later: "authRegistered (run evs (snd ?first))"
    by (rule authRegistered_run)
  then have again: "isl (fst (registerAuth fn co bp storage (run evs (snd ?first))))"
    by (simp add: registerAuth_registered)
  from later have same: "snd (registerAuth fn co bp storage (run evs (snd ?first)))
      = run evs (snd ?first)"
    by (simp add: registerAuth_registered)
  from atAwait flag failed again same show ?thesis by blast
qed

theorem registerAuth_flag_not_restored_witness:
  "server configured \<noteq> None \<and> \<not> authRegistered configured
   \<and> fst (registerAuth 1 sid_cookie None (Some (Error ''storage failed'')) configured)
       = Inl (Error ''storage failed'')
   \<and> authRegistered
        (snd (registerAuth 1 sid_cookie None (Some (Error ''storage failed'')) configured))
   \<and> isl (fst (registerAuth 2 sid_cookie None None
        (run [Stop None, Setup plain_config]
          (snd (registerAuth 1 sid_cookie None (Some (Error ''storage failed'')) configured)))))"
proof -
  have h1: "server configured \<noteq> None" and h2: "\<not> authRegistered configured"
    by (simp_all add: configured_def new_HttpServer_def)
  note w = registerAuth_flag_not_restored [OF h1 h2, of 1 sid_cookie None
      "Some (Error ''storage failed'')" 2 sid_cookie None None "[Stop None, Setup plain_config]"]
  from w have "fst (registerAuth 1 sid_cookie None (Some (Error ''storage failed'')) configured)
      = Inl (Error ''storage failed'')"
    by simp
  with w h1 h2 show ?thesis by blast
qed

subsection \<open>Setup\<close>

text \<open>
  C4 (as amended). \<open>setup\<close> has no guard against a second call and never fails, on any
  instance: it returns the options and replaces the server of the instance by a newly
  created one, with the base-path rewrite handler as its only extension when the
  configuration asks for it; the registered routers, the registered flag, the base-path
  overrides and the auth records stay as they were.
\<close>

theorem setup_server_replaces:
  "setup_server config this =
     (Inr (getServerOptions config),
      this\<lparr>server := Some ((createServer (getServerOptions config))
        \<lparr>ext_onRequest :=
           (case basePath config of
              None \<Rightarrow> []
            | Some bp \<Rightarrow> if rewriteBasePath config then [basePathRewriteHandler bp] else [])\<rparr>)\<rparr>)
   \<and> registeredRouters (snd (setup_server config this)) = registeredRouters this
   \<and> authRegistered (snd (setup_server config this)) = authRegistered this
   \<and> basePathCache (snd (setup_server config this)) = basePathCache this
   \<and> authState (snd (setup_server config this)) = authState this"
  by (simp add: setup_server_eq)

text \<open>
  C4 as stated says that a second call of \<open>setup\<close> fails; on a new instance, the second
  call returns the options like the first.
\<close>

theorem setup_server_twice_succeeds:
  "fst (setup_server plain_config (snd (setup_server plain_config new_HttpServer)))
     = Inr (getServerOptions plain_config)"
  by (simp add: setup_server_def setupBasePathRewrite_def plain_config_def Let_def)

subsection \<open>Base path rewriting\<close>

text \<open>
  C5. With the configuration \<open>basePath = "/app"\<close>, \<open>rewriteBasePath = true\<close>, \<open>setup\<close>
  installs one PreAuth handler; it answers a request for \<open>/app/foo\<close> with a redirect to
  \<open>/foo\<close> that is forwarded (\<open>forward = true\<close>), and a request for \<open>/other\<close> with a
  rejection of status 404.
\<close>

theorem basePath_rewrite_scenario:
  "\<exists>s. server (snd (setup_server
            \<lparr>basePath = Some ''/app'', rewriteBasePath = True, host = h, port = p\<rparr> this))
          = Some s
     \<and> map (\<lambda>handler. handler (KibanaRequest m ''/app/foo'')) (ext_onRequest s)
         = [Redirected ''/foo'' True]
     \<and> map (\<lambda>handler. handler (KibanaRequest m ''/other'')) (ext_onRequest s)
         = [Rejected (Error ''not found'') 404]"
  by (simp add: setup_server_eq url_defs Let_def)

text \<open>
  C9. The handler compares the base path with the pathname as strings: a request whose
  pathname starts with the characters of the base path is forwarded, to the url with
  that many characters removed from the front of the pathname (and \<open>/\<close> for a pathname
  that is left empty), whether or not the base path ends at a path segment, as for
  \<open>/application\<close> under the base path \<open>/app\<close>; a request is rejected, with 404, only
  when it has no pathname or its pathname does not start with the base path. This is the
  handler that \<open>setup\<close> installs when the base path is set and \<open>rewriteBasePath\<close> is true.
\<close>

theorem basePathRewriteHandler_raw_prefix:
  "basePathRewriteHandler bp request =
     (case pathname (parseUrl (url_href request)) of
        None \<Rightarrow> Rejected (Error ''not found'') 404
      | Some pn \<Rightarrow>
          if startsWith pn bp
          then Redirected
                 (formatUrl ((parseUrl (url_href request))\<lparr>pathname :=
                    Some (if drop (length bp) pn = [] then ''/'' else drop (length bp) pn)\<rparr>))
                 True
          else Rejected (Error ''not found'') 404)
   \<and> (\<forall>e c pn. basePathRewriteHandler bp request = Rejected e c
         \<longrightarrow> c = 404 \<and> (pathname (parseUrl (url_href request)) = Some pn
                          \<longrightarrow> \<not> startsWith pn bp))
   \<and> basePathRewriteHandler ''/app'' (KibanaRequest m ''/application'')
       = Redirected ''lication'' True
   \<and> (basePath config = Some bp \<and> rewriteBasePath config
        \<longrightarrow> (\<exists>s. server (snd (setup_server config this)) = Some s
                  \<and> ext_onRequest s = [basePathRewriteHandler bp]))"
proof -
  have rej: "c = 404 \<and> (pathname (parseUrl (url_href request)) = Some pn
      \<longrightarrow> \<not> startsWith pn bp)"
    if "basePathRewriteHandler bp request = Rejected e c" for e c pn
    using that unfolding basePathRewriteHandler_cases [of bp request]
    by (auto split: option.splits if_splits)
  have ex: "basePathRewriteHandler ''/app'' (KibanaRequest m ''/application'')
      = Redirected ''lication'' True"
    by (simp add: url_defs Let_def)
  have inst: "\<exists>s. server (snd (setup_server config this)) = Some s
      \<and> ext_onRequest s = [basePathRewriteHandler bp]"
    if "basePath config = Some bp \<and> rewriteBasePath config"
    using that by (simp add: setup_server_eq)
  from basePathRewriteHandler_cases [of bp request] rej ex inst show ?thesis by blast
qed

theorem basePathRewriteHandler_raw_prefix_witness:
  "basePath app_config = Some ''/app'' \<and> rewriteBasePath app_config
   \<and> pathname (parseUrl ''/application/x?q=1'') = Some ''/application/x''
   \<and> startsWith ''/application/x'' ''/app''
   \<and> basePathRewriteHandler ''/app'' (KibanaRequest 3 ''/application/x?q=1'')
       = Redirected ''lication/x?q=1'' True
   \<and> pathname (parseUrl ''/ap'') = Some ''/ap'' \<and> \<not> startsWith ''/ap'' ''/app''
   \<and> basePathRewriteHandler ''/app'' (KibanaRequest 3 ''/ap'')
       = Rejected (Error ''not found'') 404"
proof -
  let ?bp = "''/app''"
  have c: "basePath app_config = Some ?bp \<and> rewriteBasePath app_config"
    by (simp add: app_config_def)
  have p1: "pathname (parseUrl ''/application/x?q=1'') = Some ''/application/x''"
    and q1: "search (parseUrl ''/application/x?q=1'') = Some ''?q=1''"
    by (simp_all add: parseUrl_def is_path_char_def Let_def)
  have s1: "startsWith ''/application/x'' ?bp"
    by (simp add: startsWith_def)
  have p2: "pathname (parseUrl ''/ap'') = Some ''/ap''"
    by (simp add: parseUrl_def is_path_char_def Let_def)
  have s2: "\<not> startsWith ''/ap'' ?bp"
    by (simp add: startsWith_def)
  have "basePathRewriteHandler ?bp (KibanaRequest 3 ''/application/x?q=1'') =
      (case pathname (parseUrl (url_href (KibanaRequest 3 ''/application/x?q=1''))) of
         None \<Rightarrow> Rejected (Error ''not found'') 404
       | Some pn \<Rightarrow>
           if startsWith pn ?bp
           then Redirected
                  (formatUrl ((parseUrl (url_href (KibanaRequest 3 ''/application/x?q=1'')))
                     \<lparr>pathname :=
                        Some (if drop (length ?bp) pn = [] then ''/''
                              else drop (length ?bp) pn)\<rparr>))
                  True
           else Rejected (Error ''not found'') 404)"
    using basePathRewriteHandler_raw_prefix
      [of ?bp "KibanaRequest 3 ''/application/x?q=1''" 3 app_config new_HttpServer]
    by (rule conjunct1)
  then have r1: "basePathRewriteHandler ?bp (KibanaRequest 3 ''/application/x?q=1'')
      = Redirected ''lication/x?q=1'' True"
    by (simp add: p1 q1 s1 formatUrl_def)
  have "basePathRewriteHandler ?bp (KibanaRequest 3 ''/ap'') =
      (case pathname (parseUrl (url_href (KibanaRequest 3 ''/ap''))) of
         None \<Rightarrow> Rejected (Error ''not found'') 404
       | Some pn \<Rightarrow>
           if startsWith pn ?bp
           then Redirected
                  (formatUrl ((parseUrl (url_href (KibanaRequest 3 ''/ap'')))
                     \<lparr>pathname :=
                        Some (if drop (length ?bp) pn = [] then ''/''
                              else drop (length ?bp) pn)\<rparr>))
                  True
           else Rejected (Error ''not found'') 404)"
    using basePathRewriteHandler_raw_prefix
      [of ?bp "KibanaRequest 3 ''/ap''" 3 app_config new_HttpServer]
    by (rule conjunct1)
  then have r2: "basePathRewriteHandler ?bp (KibanaRequest 3 ''/ap'')
      = Rejected (Error ''not found'') 404"
    by (simp add: p2 s2)
  from c p1 s1 r1 p2 s2 r2 show ?thesis by blast
qed

subsection \<open>Base path overrides\<close>

text \<open>
  C6. When the request identity already has a base-path override, \<open>setBasePathFor\<close>
  fails with an error for every new value and leaves the instance, and with it the
  override, as it was. When it has none, the call sets the override; after that a call
  for any request of the same identity fails.
\<close>

theorem setBasePathFor_once:
  "(basePathCache this (incomingMessageOf request) = Some old \<longrightarrow>
      setBasePathFor request bp this =
        (Inl (Error
          ''Request basePath was previously set. Setting multiple times is not supported.''),
         this)
      \<and> basePathCache (snd (setBasePathFor request bp this)) (incomingMessageOf request)
          = Some old)
   \<and> (basePathCache this (incomingMessageOf request) = None \<longrightarrow>
        fst (setBasePathFor request bp this) = Inr ()
        \<and> basePathCache (snd (setBasePathFor request bp this)) (incomingMessageOf request)
            = Some bp)
   \<and> (incomingMessageOf request' = incomingMessageOf request \<longrightarrow>
        isl (fst (setBasePathFor request' bp' (snd (setBasePathFor request bp this)))))"
  by (auto simp: setBasePathFor_def Let_def)

theorem setBasePathFor_once_witness:
  "basePathCache (snd (setBasePathFor (Inr (HapiRequest 3)) ''/s/one'' new_HttpServer))
      (incomingMessageOf (Inl (KibanaRequest 3 ''/x''))) = Some ''/s/one''
   \<and> fst (setBasePathFor (Inl (KibanaRequest 3 ''/x'')) ''/s/two''
            (snd (setBasePathFor (Inr (HapiRequest 3)) ''/s/one'' new_HttpServer)))
       = Inl (Error
          ''Request basePath was previously set. Setting multiple times is not supported.'')
   \<and> basePathCache
        (snd (setBasePathFor (Inl (KibanaRequest 3 ''/x'')) ''/s/two''
               (snd (setBasePathFor (Inr (HapiRequest 3)) ''/s/one'' new_HttpServer))))
        3 = Some ''/s/one''"
proof -
  let ?st = "snd (setBasePathFor (Inr (HapiRequest 3)) ''/s/one'' new_HttpServer)"
  have h: "basePathCache ?st (incomingMessageOf (Inl (KibanaRequest 3 ''/x''))) = Some ''/s/one''"
    by (simp add: setBasePathFor_def incomingMessageOf_def new_HttpServer_def Let_def)
  have m: "incomingMessageOf (Inl (KibanaRequest 3 ''/x'')) = 3"
    by (simp add: incomingMessageOf_def)
  from setBasePathFor_once [of ?st "Inl (KibanaRequest 3 ''/x'')" "''/s/one''" "''/s/two''"] h
  have "setBasePathFor (Inl (KibanaRequest 3 ''/x'')) ''/s/two'' ?st =
      (Inl (Error
        ''Request basePath was previously set. Setting multiple times is not supported.''),
       ?st)"
    by blast
  with h m show ?thesis by simp
qed

subsection \<open>Routers\<close>

text \<open>
  C7. While the server is listening, \<open>registerRouter\<close> fails with an error for every
  router and leaves the instance, and with it the set of registered routers, as it was;
  otherwise the call succeeds and the set is the old one with the router added. The
  server is listening once \<open>start\<close> has returned.
\<close>

theorem registerRouter_listening:
  "(isListening this \<longrightarrow>
      registerRouter router this =
        (Inl (Error ''Routers can be registered only when HTTP server is stopped.''), this))
   \<and> (\<not> isListening this \<longrightarrow>
        fst (registerRouter router this) = Inr ()
        \<and> set (registeredRouters (snd (registerRouter router this)))
            = insert router (set (registeredRouters this)))
   \<and> (fst (start config check listen this) = Inr () \<longrightarrow>
        isListening (snd (start config check listen this)))"
  by (auto simp: registerRouter_def Set_add_def start_def isListening_def Let_def
      split: option.splits prod.splits)

theorem registerRouter_listening_witness:
  "fst (start plain_config example_check None configured) = Inr ()
   \<and> isListening (snd (start plain_config example_check None configured))
   \<and> fst (registerRouter api_router (snd (start plain_config example_check None configured)))
       = Inl (Error ''Routers can be registered only when HTTP server is stopped.'')
   \<and> registeredRouters (snd (registerRouter api_router
        (snd (start plain_config example_check None configured)))) = []
   \<and> \<not> isListening configured
   \<and> registeredRouters (snd (registerRouter api_router configured)) = [api_router]"
proof -
  let ?st = "snd (start plain_config example_check None configured)"
  have ok: "fst (start plain_config example_check None configured) = Inr ()"
    by (simp add: start_def configured_def new_HttpServer_def Let_def)
  have rs: "registeredRouters ?st = []"
    by (simp add: start_def configured_def new_HttpServer_def Let_def)
  have nl: "\<not> isListening configured"
    by (simp add: isListening_def configured_def createServer_def)
  have add: "registeredRouters (snd (registerRouter api_router configured)) = [api_router]"
    using nl by (simp add: registerRouter_def Set_add_def configured_def new_HttpServer_def)
  from registerRouter_listening [of configured api_router plain_config example_check None] ok
  have li: "isListening ?st"
    by blast
  with registerRouter_listening [of ?st api_router plain_config example_check None]
  have "registerRouter api_router ?st =
      (Inl (Error ''Routers can be registered only when HTTP server is stopped.''), ?st)"
    by blast
  with ok li rs nl add show ?thesis by simp
qed



text \<open>
  The route option alone does not enforce anything: after a call of \<open>registerAuth\<close>
  whose storage construction failed, the flag is set and no scheme is installed; \<open>start\<close>
  then leaves a route that requires authentication to the default strategy, and the
  server has none.
\<close>

lemma start_after_failed_storage:
  "fst (start plain_config example_check None
        (run [Setup plain_config, RegisterRouter api_router,
              RegisterAuth 2 sid_cookie None (Some storage_failed)] new_HttpServer)) = Inr ()
   \<and> (case server (snd (start plain_config example_check None
          (run [Setup plain_config, RegisterRouter api_router,
                RegisterAuth 2 sid_cookie None (Some storage_failed)] new_HttpServer))) of
        None \<Rightarrow> False
      | Some s' \<Rightarrow>
          map sr_auth (route_table s') = [AuthDefault, AuthDisabled]
          \<and> map (authEnforced s') (route_table s') = [False, False])"
proof -
  let ?st = "run [Setup plain_config, RegisterRouter api_router,
                  RegisterAuth 2 sid_cookie None (Some storage_failed)] new_HttpServer"
  let ?s0 = "createServer (getServerOptions plain_config)"
  let ?r1 = "\<lparr>route_handler = 10, route_method = ''GET'', route_path = ''/widgets'',
      authRequired = True\<rparr>"
  let ?r2 = "\<lparr>route_handler = 11, route_method = ''GET'', route_path = ''status'',
      authRequired = False\<rparr>"
  have st: "?st = new_HttpServer\<lparr>server := Some ?s0, registeredRouters := [api_router],
      authRegistered := True\<rparr>"
    by (simp add: setup_server_eq registerRouter_def registerAuth_defs isListening_def
        Set_add_def plain_config_def new_HttpServer_def createServer_def Let_def)
  have b1: "bindRoute True ''/api/'' ?r1 =
      \<lparr>sr_handler = 10, sr_method = ''GET'', sr_path = ''/api/widgets'', sr_auth = AuthDefault\<rparr>"
    and b2: "bindRoute True ''/api/'' ?r2 =
      \<lparr>sr_handler = 11, sr_method = ''GET'', sr_path = ''/api/status'', sr_auth = AuthDisabled\<rparr>"
    by (simp_all add: bindRoute_def getRouteFullPath_def slice_def endsWith_def startsWith_def)
  have loops: "bindRouters example_check True [api_router] ?s0 =
      (None, ?s0\<lparr>route_table := [bindRoute True ''/api/'' ?r1, bindRoute True ''/api/'' ?r2]\<rparr>)"
    unfolding b1 b2
    by (simp add: api_router_def b1 b2 server_route_def example_check_def startsWith_def
        createServer_def)
  have res: "start plain_config example_check None ?st =
      (Inr (), ?st\<lparr>server := Some (?s0\<lparr>route_table :=
         [bindRoute True ''/api/'' ?r1, bindRoute True ''/api/'' ?r2], listening := True\<rparr>)\<rparr>)"
    unfolding st by (simp add: start_def new_HttpServer_def loops del: bindRouters.simps)
  show ?thesis
    unfolding res b1 b2 by (simp add: authEnforced_def createServer_def)
qed


end
